theory Spec2Isabelle
  imports Main
begin

section \<open>The persistent store\<close>

text \<open>
  The schema of the repository (the SQL migration) declares the table
  \<^verbatim>\<open>public.interventions\<close>: a generated primary key, two nullable foreign keys with
  \<^verbatim>\<open>ON DELETE SET NULL\<close>, nullable text columns, \<^verbatim>\<open>status\<close> and \<^verbatim>\<open>priority\<close> with a default
  and a \<^verbatim>\<open>CHECK\<close> constraint, two timestamps defaulting to \<^verbatim>\<open>now()\<close> and a nullable
  \<^verbatim>\<open>resolved_at\<close> with no default. A row of the table, which is also the object that
  \<^verbatim>\<open>select('*')\<close> hands to the detail page, is a record; SQL \<^verbatim>\<open>NULL\<close> is \<open>None\<close>.
  The column \<^verbatim>\<open>id\<close> is called \<open>intervention_id\<close> here, since \<open>id\<close> is the identity
  function of HOL.
\<close>

type_synonym uuid = string
type_synonym timestamp = string

record Intervention =
  intervention_id :: uuid
  technician_id :: "uuid option"
  machine_id :: "uuid option"
  problem_description :: "string option"
  audio_url :: "string option"
  ai_solution :: "string option"
  status :: "string option"
  priority :: "string option"
  created_at :: timestamp
  updated_at :: timestamp
  resolved_at :: "timestamp option"

text \<open>
  The store holds the interventions table and, for the two foreign keys, the identifiers
  present in the machines and technicians tables.
\<close>

record store =
  machine_ids :: "uuid list"
  technician_ids :: "uuid list"
  interventions :: "Intervention list"

text \<open>
  What the program cannot decide is an input of the model: whether the request reaches the
  database at all (\<open>fault\<close>: network, session), the value of \<^verbatim>\<open>gen_random_uuid()\<close> and
  the value of \<^verbatim>\<open>now()\<close> in the database.
\<close>

record db_env =
  fault :: bool
  fresh_id :: uuid
  db_now :: timestamp

datatype store_error =
  TransportError | UniqueViolation | CheckViolation | ForeignKeyViolation

definition status_values :: "string list" where
  "status_values = [''pending'', ''in_progress'', ''resolved'', ''cancelled'']"

definition priority_values :: "string list" where
  "priority_values = [''low'', ''medium'', ''high'', ''critical'']"

definition status_check :: "string \<Rightarrow> bool" where
  "status_check s = (s \<in> set status_values)"

definition priority_check :: "string \<Rightarrow> bool" where
  "priority_check p = (p \<in> set priority_values)"

text \<open>The object literal that \<^verbatim>\<open>handleSave\<close> passes to \<^verbatim>\<open>insert\<close>: six columns.\<close>

record insert_values =
  iv_machine_id :: uuid
  iv_technician_id :: uuid
  iv_problem_description :: string
  iv_ai_solution :: string
  iv_status :: string
  iv_priority :: string

text \<open>
  The row that the table stores for these values: the columns not named in the insert take
  their declared default (\<^verbatim>\<open>audio_url\<close> and \<^verbatim>\<open>resolved_at\<close> have none, so they are null).
\<close>

definition new_row :: "db_env \<Rightarrow> insert_values \<Rightarrow> Intervention" where
  "new_row env v =
     \<lparr> intervention_id = fresh_id env,
       technician_id = Some (iv_technician_id v),
       machine_id = Some (iv_machine_id v),
       problem_description = Some (iv_problem_description v),
       audio_url = None,
       ai_solution = Some (iv_ai_solution v),
       status = Some (iv_status v),
       priority = Some (iv_priority v),
       created_at = db_now env,
       updated_at = db_now env,
       resolved_at = None \<rparr>"

definition has_id :: "uuid \<Rightarrow> Intervention list \<Rightarrow> bool" where
  "has_id k rows = (k \<in> set (map intervention_id rows))"

definition insert_intervention ::
    "db_env \<Rightarrow> insert_values \<Rightarrow> store \<Rightarrow> store_error + store" where
  "insert_intervention env v db =
     (if fault env then Inl TransportError
      else if \<not> (status_check (iv_status v) \<and> priority_check (iv_priority v))
        then Inl CheckViolation
      else if has_id (fresh_id env) (interventions db) then Inl UniqueViolation
      else if \<not> (iv_technician_id v \<in> set (technician_ids db)
                 \<and> iv_machine_id v \<in> set (machine_ids db))
        then Inl ForeignKeyViolation
      else Inr (db\<lparr>interventions := interventions db @ [new_row env v]\<rparr>))"

text \<open>
  The patch that \<^verbatim>\<open>updateStatus\<close> builds: \<^verbatim>\<open>status\<close> always, \<^verbatim>\<open>resolved_at\<close> only when
  the key was added to the object (\<open>None\<close>: the key is absent, the column is not written).
\<close>

record update_data =
  ud_status :: string
  ud_resolved_at :: "timestamp option"

text \<open>
  A partial update of one row. The trigger \<^verbatim>\<open>update_interventions_updated_at\<close> of the
  schema sets \<^verbatim>\<open>updated_at\<close> on every updated row.
\<close>

definition apply_update :: "timestamp \<Rightarrow> update_data \<Rightarrow> Intervention \<Rightarrow> Intervention" where
  "apply_update now u r =
     r\<lparr> status := Some (ud_status u),
        resolved_at := (case ud_resolved_at u of None \<Rightarrow> resolved_at r | Some t \<Rightarrow> Some t),
        updated_at := now \<rparr>"

fun update_rows :: "timestamp \<Rightarrow> update_data \<Rightarrow> uuid \<Rightarrow> Intervention list \<Rightarrow> Intervention list" where
  "update_rows now u k [] = []"
| "update_rows now u k (r # rs) =
     (if intervention_id r = k then apply_update now u r else r) # update_rows now u k rs"

text \<open>
  \<^verbatim>\<open>update(updateData).eq('id', k)\<close>: every row whose id is \<open>k\<close> is patched; the
  \<^verbatim>\<open>CHECK\<close> on \<^verbatim>\<open>status\<close> is evaluated on the rows that are written, so a patch that
  matches no row succeeds and changes nothing.
\<close>

definition update_intervention ::
    "db_env \<Rightarrow> update_data \<Rightarrow> uuid \<Rightarrow> store \<Rightarrow> store_error + store" where
  "update_intervention env u k db =
     (if fault env then Inl TransportError
      else if has_id k (interventions db) \<and> \<not> status_check (ud_status u)
        then Inl CheckViolation
      else Inr (db\<lparr>interventions := update_rows (db_now env) u k (interventions db)\<rparr>))"

fun find_intervention :: "uuid \<Rightarrow> Intervention list \<Rightarrow> Intervention option" where
  "find_intervention k [] = None"
| "find_intervention k (r # rs) =
     (if intervention_id r = k then Some r else find_intervention k rs)"

section \<open>Notifications\<close>

text \<open>
  A toast is the object passed to \<^verbatim>\<open>toast(...)\<close>. The texts of the source are Portuguese;
  their accented letters are written here without the accent, every other character as
  it is, so two texts that differ here differ in the source, and one source literal is
  one text here.
\<close>

datatype toast_variant = Default | Destructive

record toast =
  variant :: toast_variant
  title :: string
  description :: string

section \<open>The lifecycle manager: the intervention detail page\<close>

record detail_state =
  intervention :: "Intervention option"
  updating :: bool
  detail_toasts :: "toast list"

definition status_label :: "string \<Rightarrow> string" where
  "status_label newStatus =
     (if newStatus = ''resolved'' then ''resolvida''
      else if newStatus = ''in_progress'' then ''em progresso''
      else newStatus)"

definition toast_status_updated :: "string \<Rightarrow> toast" where
  "toast_status_updated newStatus =
     \<lparr> variant = Default, title = ''Estado atualizado'',
       description = ''Intervencao marcada como '' @ status_label newStatus \<rparr>"

definition toast_status_error :: toast where
  "toast_status_error =
     \<lparr> variant = Destructive, title = ''Erro'',
       description = ''Nao foi possivel atualizar o estado.'' \<rparr>"

text \<open>
  \<^verbatim>\<open>updateStatus(newStatus)\<close>. \<open>client_now\<close> is \<^verbatim>\<open>new Date().toISOString()\<close>, read in the
  browser. The function returns at once when no intervention is loaded; otherwise it
  builds the patch, sends one update keyed by the id of the loaded copy and, when the
  store reports no error, replaces the loaded copy by \<^verbatim>\<open>{ ...intervention, status: newStatus }\<close>.
  The \<^verbatim>\<open>finally\<close> block resets \<^verbatim>\<open>updating\<close> on both paths.
\<close>

definition build_update_data :: "string \<Rightarrow> timestamp \<Rightarrow> update_data" where
  "build_update_data newStatus client_now =
     \<lparr> ud_status = newStatus,
       ud_resolved_at = (if newStatus = ''resolved'' then Some client_now else None) \<rparr>"

definition updateStatus ::
    "string \<Rightarrow> timestamp \<Rightarrow> db_env \<Rightarrow> store \<times> detail_state \<Rightarrow> store \<times> detail_state" where
  "updateStatus newStatus client_now env s =
     (case intervention (snd s) of
        None \<Rightarrow> s
      | Some iv \<Rightarrow>
          (case update_intervention env (build_update_data newStatus client_now)
                  (intervention_id iv) (fst s) of
             Inl e \<Rightarrow>
               (fst s, (snd s)\<lparr> updating := False,
                                detail_toasts := detail_toasts (snd s) @ [toast_status_error] \<rparr>)
           | Inr db' \<Rightarrow>
               (db', (snd s)\<lparr> intervention := Some (iv\<lparr>status := Some newStatus\<rparr>),
                              updating := False,
                              detail_toasts :=
                                detail_toasts (snd s) @ [toast_status_updated newStatus] \<rparr>)))"

text \<open>
  \<^verbatim>\<open>fetchData(interventionId)\<close> of the detail page, as far as the intervention goes (the
  machine and the technician it then loads only fill the side bar): \<^verbatim>\<open>select('*')\<close> with
  \<^verbatim>\<open>.single()\<close> gives the row or an error, and an error sends the user back to the list.
\<close>

record detail_page =
  detail :: detail_state
  loading :: bool
  detail_navigated :: "string option"

definition fetchData :: "uuid \<Rightarrow> bool \<Rightarrow> store \<Rightarrow> detail_page \<Rightarrow> detail_page" where
  "fetchData interventionId fetch_fault db pg =
     (case (if fetch_fault then None else find_intervention interventionId (interventions db)) of
        None \<Rightarrow> pg\<lparr> loading := False, detail_navigated := Some ''/interventions'' \<rparr>
      | Some interventionData \<Rightarrow>
          pg\<lparr> detail := (detail pg)\<lparr>intervention := Some interventionData\<rparr>,
              loading := False \<rparr>)"

text \<open>
  The controls of the detail page that call \<^verbatim>\<open>updateStatus\<close>. The three quick-action
  buttons are rendered under a condition on the loaded status; the selector under
  "Alterar Estado" lists the four statuses whatever the loaded status is, and its
  \<^verbatim>\<open>onValueChange\<close> is \<^verbatim>\<open>updateStatus\<close> itself. Every control is disabled while an
  update is running, and the page shows none of them when no intervention is loaded.
\<close>

definition quick_actions :: "string option \<Rightarrow> string list" where
  "quick_actions st =
     (if st = Some ''pending'' then [''in_progress''] else []) @
     (if st = Some ''in_progress'' then [''resolved''] else []) @
     (if st = Some ''pending'' \<or> st = Some ''in_progress'' then [''cancelled''] else [])"

definition select_items :: "string list" where
  "select_items = [''pending'', ''in_progress'', ''resolved'', ''cancelled'']"

definition offered_targets :: "detail_state \<Rightarrow> string list" where
  "offered_targets st =
     (case intervention st of
        None \<Rightarrow> []
      | Some iv \<Rightarrow> if updating st then [] else quick_actions (status iv) @ select_items)"

text \<open>A sequence of \<^verbatim>\<open>updateStatus\<close> calls, each with its target, its clock and its store outcome.\<close>

fun updates ::
    "(string \<times> timestamp \<times> db_env) list \<Rightarrow> store \<times> detail_state \<Rightarrow> store \<times> detail_state" where
  "updates [] s = s"
| "updates (c # cs) s = updates cs (updateStatus (fst c) (fst (snd c)) (snd (snd c)) s)"

section \<open>The intake pipeline: the new-intervention page\<close>

datatype ProcessingStep = Idle | Recording | Transcribing | Generating | Complete

record Machine =
  machine_key :: uuid
  model :: string
  location :: string

text \<open>
  The calls that leave the page, in the order they are made: the two edge functions and
  the insert. The log is kept in the state so that the order and the number of calls can
  be stated.
\<close>

datatype service_call =
  TranscribeAudio string
  | GenerateSolution string "string option" "string option"
  | InsertIntervention insert_values

text \<open>
  The \<^verbatim>\<open>onstop\<close> handler of a recorder is a closure of the render in which
  \<^verbatim>\<open>startRecording\<close> was called: the \<^verbatim>\<open>processAudio\<close> it calls reads the \<^verbatim>\<open>machines\<close>
  and the \<^verbatim>\<open>selectedMachine\<close> of that render. A recorder carries these two values, and
  whether its \<^verbatim>\<open>start(1000)\<close> went through.
\<close>

record recorder =
  closure_machines :: "Machine list"
  closure_selectedMachine :: string
  recorder_started :: bool

text \<open>
  The state of the page. The list of technicians is only rendered and is left out; the
  toasts shown, the calls made and the route navigated to are recorded in the state.
\<close>

record intake_state =
  machines :: "Machine list"
  selectedMachine :: string
  selectedTechnician :: string
  problemDescription :: string
  aiSolution :: string
  processingStep :: ProcessingStep
  isRecording :: bool
  saving :: bool
  mediaRecorderRef :: "recorder option"
  audioChunksRef :: "string list"
  toasts :: "toast list"
  calls :: "service_call list"
  navigated :: "string option"

text \<open>The state of the page when it is mounted (the \<^verbatim>\<open>useState\<close> and \<^verbatim>\<open>useRef\<close> initial values).\<close>

definition initial_intake :: "Machine list \<Rightarrow> intake_state" where
  "initial_intake ms =
     \<lparr> machines = ms, selectedMachine = [], selectedTechnician = [],
       problemDescription = [], aiSolution = [], processingStep = Idle,
       isRecording = False, saving = False, mediaRecorderRef = None,
       audioChunksRef = [], toasts = [], calls = [], navigated = None \<rparr>"

definition toast_microphone :: toast where
  "toast_microphone =
     \<lparr> variant = Destructive, title = ''Erro no microfone'',
       description = ''Nao foi possivel aceder ao microfone. Verifique as permissoes.'' \<rparr>"

definition toast_processing_done :: toast where
  "toast_processing_done =
     \<lparr> variant = Default, title = ''Processamento concluido'',
       description = ''Audio transcrito e solucao gerada com sucesso!'' \<rparr>"

definition toast_processing_error :: toast where
  "toast_processing_error =
     \<lparr> variant = Destructive, title = ''Erro no processamento'',
       description = ''Ocorreu um erro ao processar o audio. Tente novamente.'' \<rparr>"

definition toast_required_fields :: toast where
  "toast_required_fields =
     \<lparr> variant = Destructive, title = ''Campos obrigatorios'',
       description = ''Por favor, preencha todos os campos obrigatorios.'' \<rparr>"

definition toast_created :: toast where
  "toast_created =
     \<lparr> variant = Default, title = ''Intervencao criada'',
       description = ''A intervencao foi registada com sucesso.'' \<rparr>"

definition toast_save_error :: toast where
  "toast_save_error =
     \<lparr> variant = Destructive, title = ''Erro ao guardar'',
       description = ''Nao foi possivel guardar a intervencao.'' \<rparr>"

text \<open>
  \<^verbatim>\<open>startRecording\<close> is an async function: it awaits \<^verbatim>\<open>getUserMedia\<close> before it writes
  anything, so other handlers of the page can run between the call and what follows. The
  call fixes the closure values; what follows depends on the device. Either
  \<^verbatim>\<open>getUserMedia\<close> or the construction of the recorder throws (\<open>DeviceFailed\<close>: nothing
  has been written), or \<^verbatim>\<open>start(1000)\<close> throws (\<open>StartFailed\<close>: both refs have been
  assigned by then), or all goes through (\<open>DeviceGranted\<close>). The \<^verbatim>\<open>catch\<close> block only shows
  the microphone toast.
\<close>

datatype device_outcome = DeviceGranted | DeviceFailed | StartFailed

definition startRecording_call :: "intake_state \<Rightarrow> recorder" where
  "startRecording_call st =
     \<lparr> closure_machines = machines st,
       closure_selectedMachine = selectedMachine st,
       recorder_started = False \<rparr>"

definition startRecording_resume :: "recorder \<Rightarrow> device_outcome \<Rightarrow> intake_state \<Rightarrow> intake_state" where
  "startRecording_resume r dev st =
     (case dev of
        DeviceFailed \<Rightarrow> st\<lparr>toasts := toasts st @ [toast_microphone]\<rparr>
      | StartFailed \<Rightarrow>
          st\<lparr> audioChunksRef := [],
              mediaRecorderRef := Some (r\<lparr>recorder_started := False\<rparr>),
              toasts := toasts st @ [toast_microphone] \<rparr>
      | DeviceGranted \<Rightarrow>
          st\<lparr> audioChunksRef := [],
              mediaRecorderRef := Some (r\<lparr>recorder_started := True\<rparr>),
              isRecording := True,
              processingStep := Recording \<rparr>)"

text \<open>The whole function, when nothing else happens on the page while it waits.\<close>

definition startRecording :: "device_outcome \<Rightarrow> intake_state \<Rightarrow> intake_state" where
  "startRecording dev st = startRecording_resume (startRecording_call st) dev st"

text \<open>\<^verbatim>\<open>ondataavailable\<close>: a chunk is kept when its size is positive.\<close>

definition ondataavailable :: "string \<Rightarrow> intake_state \<Rightarrow> intake_state" where
  "ondataavailable chunk st =
     (if length chunk > 0 then st\<lparr>audioChunksRef := audioChunksRef st @ [chunk]\<rparr> else st)"

definition stopRecording :: "intake_state \<Rightarrow> intake_state" where
  "stopRecording st =
     (if mediaRecorderRef st \<noteq> None \<and> isRecording st then st\<lparr>isRecording := False\<rparr> else st)"

text \<open>
  \<^verbatim>\<open>processAudio\<close> runs in four stretches, separated by its three awaits: the reading of
  the recorded blob and the two calls. The \<^verbatim>\<open>{ data, error }\<close> pair that
  \<^verbatim>\<open>functions.invoke\<close> resolves to is an input: either the data (its \<^verbatim>\<open>text\<close>, its
  \<^verbatim>\<open>solution\<close>, strings as the state variables are declared) or an error, which the
  function throws. The result of reading the blob as a data URL is an input too
  (\<open>None\<close>: the reader reports an error). Every throw lands in the one \<^verbatim>\<open>catch\<close> block.
\<close>

datatype invoke_result = InvokeData string | InvokeError string

definition processAudio_catch :: "intake_state \<Rightarrow> intake_state" where
  "processAudio_catch st =
     st\<lparr> processingStep := Idle, toasts := toasts st @ [toast_processing_error] \<rparr>"

text \<open>First stretch: the step is set, and the reader is awaited.\<close>

definition processAudio_begin :: "intake_state \<Rightarrow> intake_state" where
  "processAudio_begin st = st\<lparr>processingStep := Transcribing\<rparr>"

text \<open>Second stretch: from the reader's result to the awaited transcription call.\<close>

definition processAudio_read :: "string option \<Rightarrow> intake_state \<Rightarrow> intake_state + intake_state" where
  "processAudio_read reader st =
     (case reader of
        None \<Rightarrow> Inl (processAudio_catch st)
      | Some base64Audio \<Rightarrow> Inr (st\<lparr>calls := calls st @ [TranscribeAudio base64Audio]\<rparr>))"

text \<open>Third stretch: from the transcription result to the awaited generation call.\<close>

definition processAudio_transcribed ::
    "recorder \<Rightarrow> invoke_result \<Rightarrow> intake_state \<Rightarrow> intake_state + intake_state" where
  "processAudio_transcribed r transcribe st =
     (case transcribe of
        InvokeError transcribeError \<Rightarrow> Inl (processAudio_catch st)
      | InvokeData transcribedText \<Rightarrow>
          (let selectedMachineData =
                 find (\<lambda>m. machine_key m = closure_selectedMachine r) (closure_machines r)
           in Inr (st\<lparr> problemDescription := transcribedText,
                       processingStep := Generating,
                       calls := calls st @
                         [GenerateSolution transcribedText
                            (map_option model selectedMachineData)
                            (map_option location selectedMachineData)] \<rparr>)))"

text \<open>Fourth stretch: from the generation result to the end.\<close>

definition processAudio_generated :: "invoke_result \<Rightarrow> intake_state \<Rightarrow> intake_state" where
  "processAudio_generated generate st =
     (case generate of
        InvokeError solutionError \<Rightarrow> processAudio_catch st
      | InvokeData solution \<Rightarrow>
          st\<lparr> aiSolution := solution,
              processingStep := Complete,
              toasts := toasts st @ [toast_processing_done] \<rparr>)"

text \<open>The whole function, when nothing else happens on the page between the stretches.\<close>

definition processAudio ::
    "recorder \<Rightarrow> string option \<Rightarrow> invoke_result \<Rightarrow> invoke_result \<Rightarrow> intake_state \<Rightarrow> intake_state" where
  "processAudio r reader transcribe generate st =
     (case processAudio_read reader (processAudio_begin st) of
        Inl failed \<Rightarrow> failed
      | Inr st2 \<Rightarrow>
          (case processAudio_transcribed r transcribe st2 of
             Inl failed \<Rightarrow> failed
           | Inr st4 \<Rightarrow> processAudio_generated generate st4))"

text \<open>
  The microphone button is disabled while the step is transcribing or generating; a
  disabled button delivers no click.
\<close>

definition mic_disabled :: "intake_state \<Rightarrow> bool" where
  "mic_disabled st =
     (processingStep st = Transcribing \<or> processingStep st = Generating)"

subsection \<open>The page and what is pending on it\<close>

text \<open>
  Between two handlers the page is its state together with what it waits for: the
  \<^verbatim>\<open>startRecording\<close> calls waiting for \<^verbatim>\<open>getUserMedia\<close>, the recorders that were stopped
  and whose \<^verbatim>\<open>stop\<close> event has not been delivered, and the \<^verbatim>\<open>processAudio\<close> runs waiting
  for the reader, for the transcription call and for the generation call. Each entry is
  the recorder whose closure the continuation belongs to. Where several entries of one
  kind wait, the oldest is taken to settle first.
\<close>

record page =
  page_state :: intake_state
  starting :: "recorder list"
  stopping :: "recorder list"
  reading :: "recorder list"
  transcription_pending :: "recorder list"
  generation_pending :: "recorder list"

definition initial_page :: "Machine list \<Rightarrow> page" where
  "initial_page ms =
     \<lparr> page_state = initial_intake ms, starting = [], stopping = [], reading = [],
       transcription_pending = [], generation_pending = [] \<rparr>"

datatype event =
  ClickMic
  | MediaSettled device_outcome
  | StopEvent
  | ReaderSettled "string option"
  | TranscriptionSettled invoke_result
  | GenerationSettled invoke_result

text \<open>
  One handler run. A click on the enabled button calls \<^verbatim>\<open>stopRecording\<close> when
  \<^verbatim>\<open>isRecording\<close> holds and \<^verbatim>\<open>startRecording\<close> otherwise
  (\<^verbatim>\<open>onClick={isRecording ? stopRecording : startRecording}\<close>). \<^verbatim>\<open>stop()\<close> on a recorder
  that was started makes its \<^verbatim>\<open>stop\<close> event pending; on a recorder whose start failed
  there is no recording to end and no event follows. The \<^verbatim>\<open>stop\<close> event runs the
  recorder's \<^verbatim>\<open>onstop\<close>, which releases the tracks and begins \<^verbatim>\<open>processAudio\<close>.
\<close>

fun deliver :: "event \<Rightarrow> page \<Rightarrow> page" where
  "deliver ClickMic pg =
     (let st = page_state pg in
      if mic_disabled st then pg
      else if isRecording st then
        (case mediaRecorderRef st of
           None \<Rightarrow> pg
         | Some r \<Rightarrow>
             pg\<lparr> page_state := stopRecording st,
                 stopping := stopping pg @ (if recorder_started r then [r] else []) \<rparr>)
      else pg\<lparr>starting := starting pg @ [startRecording_call st]\<rparr>)"
| "deliver (MediaSettled dev) pg =
     (case starting pg of
        [] \<Rightarrow> pg
      | r # rs \<Rightarrow>
          pg\<lparr> page_state := startRecording_resume r dev (page_state pg), starting := rs \<rparr>)"
| "deliver StopEvent pg =
     (case stopping pg of
        [] \<Rightarrow> pg
      | r # rs \<Rightarrow>
          pg\<lparr> page_state := processAudio_begin (page_state pg),
              stopping := rs, reading := reading pg @ [r] \<rparr>)"
| "deliver (ReaderSettled reader) pg =
     (case reading pg of
        [] \<Rightarrow> pg
      | r # rs \<Rightarrow>
          (case processAudio_read reader (page_state pg) of
             Inl failed \<Rightarrow> pg\<lparr> page_state := failed, reading := rs \<rparr>
           | Inr st2 \<Rightarrow>
               pg\<lparr> page_state := st2, reading := rs,
                   transcription_pending := transcription_pending pg @ [r] \<rparr>))"
| "deliver (TranscriptionSettled transcribe) pg =
     (case transcription_pending pg of
        [] \<Rightarrow> pg
      | r # rs \<Rightarrow>
          (case processAudio_transcribed r transcribe (page_state pg) of
             Inl failed \<Rightarrow> pg\<lparr> page_state := failed, transcription_pending := rs \<rparr>
           | Inr st4 \<Rightarrow>
               pg\<lparr> page_state := st4, transcription_pending := rs,
                   generation_pending := generation_pending pg @ [r] \<rparr>))"
| "deliver (GenerationSettled generate) pg =
     (case generation_pending pg of
        [] \<Rightarrow> pg
      | r # rs \<Rightarrow>
          pg\<lparr> page_state := processAudio_generated generate (page_state pg),
              generation_pending := rs \<rparr>)"

fun run :: "event list \<Rightarrow> page \<Rightarrow> page" where
  "run [] pg = pg"
| "run (e # es) pg = run es (deliver e pg)"

text \<open>A transcription or a generation call is in flight.\<close>

definition in_flight :: "page \<Rightarrow> bool" where
  "in_flight pg = (transcription_pending pg @ generation_pending pg \<noteq> [])"

text \<open>Nothing is pending on the page.\<close>

definition settled :: "page \<Rightarrow> bool" where
  "settled pg =
     (starting pg = [] \<and> stopping pg = [] \<and> reading pg = []
      \<and> transcription_pending pg = [] \<and> generation_pending pg = [])"

text \<open>
  \<^verbatim>\<open>handleSave\<close>. An empty string is the only falsy value of the three fields. The insert
  is the only store call; \<^verbatim>\<open>saving\<close> is set before it and reset in the \<^verbatim>\<open>finally\<close> block.
\<close>

definition save_values :: "intake_state \<Rightarrow> insert_values" where
  "save_values st =
     \<lparr> iv_machine_id = selectedMachine st,
       iv_technician_id = selectedTechnician st,
       iv_problem_description = problemDescription st,
       iv_ai_solution = aiSolution st,
       iv_status = ''pending'',
       iv_priority = ''medium'' \<rparr>"

definition handleSave :: "db_env \<Rightarrow> store \<times> intake_state \<Rightarrow> store \<times> intake_state" where
  "handleSave env s =
     (let db = fst s; st = snd s in
      if selectedMachine st = [] \<or> selectedTechnician st = [] \<or> problemDescription st = []
      then (db, st\<lparr>toasts := toasts st @ [toast_required_fields]\<rparr>)
      else
        (let st1 = st\<lparr>calls := calls st @ [InsertIntervention (save_values st)]\<rparr> in
         case insert_intervention env (save_values st) db of
           Inl e \<Rightarrow>
             (db, st1\<lparr> saving := False, toasts := toasts st1 @ [toast_save_error] \<rparr>)
         | Inr db' \<Rightarrow>
             (db', st1\<lparr> saving := False, toasts := toasts st1 @ [toast_created],
                        navigated := Some ''/'' \<rparr>)))"

section \<open>The solution-generation service\<close>












section \<open>Runs of the two pages\<close>

text \<open>
  The life of one intervention: \<^verbatim>\<open>handleSave\<close> creates it, the detail page loads it under
  the id it was given, and a sequence of \<^verbatim>\<open>updateStatus\<close> calls follows.
\<close>

definition lifecycle ::
    "db_env \<Rightarrow> store \<times> intake_state \<Rightarrow> bool \<Rightarrow> detail_page \<Rightarrow>
     (string \<times> timestamp \<times> db_env) list \<Rightarrow> store \<times> detail_state" where
  "lifecycle env s fetch_fault pg cs =
     (let db1 = fst (handleSave env s);
          pg1 = fetchData (fresh_id env) fetch_fault db1 pg
      in updates cs (db1, detail pg1))"

text \<open>
  The events of one voice submission in which the button is clicked only to start and to
  stop the recording.
\<close>

definition submission :: "string option \<Rightarrow> invoke_result \<Rightarrow> invoke_result \<Rightarrow> event list" where
  "submission reader transcribe generate =
     [ClickMic, MediaSettled DeviceGranted, ClickMic, StopEvent, ReaderSettled reader,
      TranscriptionSettled transcribe, GenerationSettled generate]"

text \<open>A row whose status is resolved carries a resolution time.\<close>

definition resolved_stamped :: "Intervention \<Rightarrow> bool" where
  "resolved_stamped r = (status r = Some ''resolved'' \<longrightarrow> resolved_at r \<noteq> None)"

subsection \<open>Concrete inputs\<close>

definition demo_store :: store where
  "demo_store = \<lparr> machine_ids = [''M1''], technician_ids = [''T1''], interventions = [] \<rparr>"

definition demo_env :: "timestamp \<Rightarrow> db_env" where
  "demo_env t = \<lparr> fault = False, fresh_id = ''I1'', db_now = t \<rparr>"

definition demo_machines :: "Machine list" where
  "demo_machines = [\<lparr> machine_key = ''M1'', model = ''Prensa'', location = ''Nave 2'' \<rparr>]"

definition demo_form :: intake_state where
  "demo_form = (initial_intake demo_machines)
     \<lparr> selectedMachine := ''M1'', selectedTechnician := ''T1'',
       problemDescription := ''motor faz ruido'' \<rparr>"

definition demo_page :: detail_page where
  "demo_page = \<lparr> detail = \<lparr> intervention = None, updating = False, detail_toasts = [] \<rparr>,
                 loading = True, detail_navigated = None \<rparr>"

definition demo_row :: "string \<Rightarrow> timestamp option \<Rightarrow> Intervention" where
  "demo_row s t =
     \<lparr> intervention_id = ''I1'', technician_id = Some ''T1'', machine_id = Some ''M1'',
       problem_description = Some ''motor faz ruido'', audio_url = None,
       ai_solution = Some [], status = Some s, priority = Some ''medium'',
       created_at = ''t0'', updated_at = ''t0'', resolved_at = t \<rparr>"

definition demo_detail :: "Intervention \<Rightarrow> detail_state" where
  "demo_detail r = \<lparr> intervention = Some r, updating = False, detail_toasts = [] \<rparr>"

definition demo_recorder :: recorder where
  "demo_recorder = \<lparr> closure_machines = demo_machines, closure_selectedMachine = ''M1'',
                     recorder_started = True \<rparr>"


section \<open>Properties of the store operations\<close>

lemmas demo_defs = demo_env_def demo_store_def demo_form_def demo_machines_def
  initial_intake_def demo_page_def

lemmas store_defs = insert_intervention_def update_intervention_def has_id_def status_check_def
  priority_check_def status_values_def priority_values_def new_row_def apply_update_def

lemmas process_defs = processAudio_def processAudio_begin_def processAudio_read_def
  processAudio_transcribed_def processAudio_generated_def processAudio_catch_def

lemmas recording_defs = startRecording_def startRecording_call_def startRecording_resume_def
  stopRecording_def mic_disabled_def

lemmas page_defs = initial_page_def initial_intake_def in_flight_def settled_def submission_def

lemma find_update_rows_same:
  "find_intervention k (update_rows now u k rows) =
     map_option (apply_update now u) (find_intervention k rows)"
  by (induction rows) (simp_all add: apply_update_def)

lemma find_update_rows_other:
  "k' \<noteq> k \<Longrightarrow> find_intervention k' (update_rows now u k rows) = find_intervention k' rows"
  by (induction rows) (simp_all add: apply_update_def)

lemma length_update_rows: "length (update_rows now u k rows) = length rows"
  by (induction rows) simp_all

lemma update_success_rows:
  "update_intervention env u k db = Inr db' \<Longrightarrow>
     db' = db\<lparr>interventions := update_rows (db_now env) u k (interventions db)\<rparr>"
  by (auto simp: update_intervention_def split: if_splits)

lemma insert_success_rows:
  "insert_intervention env v db = Inr db' \<Longrightarrow>
     db' = db\<lparr>interventions := interventions db @ [new_row env v]\<rparr>"
  by (auto simp: insert_intervention_def split: if_splits)

text \<open>A failed update leaves the store and the loaded copy as they were.\<close>

lemma updateStatus_failure:
  assumes "intervention st = Some iv"
    and "update_intervention env (build_update_data newStatus client_now)
           (intervention_id iv) db = Inl e"
  shows "fst (updateStatus newStatus client_now env (db, st)) = db
       \<and> intervention (snd (updateStatus newStatus client_now env (db, st))) = Some iv"
  using assms by (simp add: updateStatus_def)

text \<open>The steps in which the awaited calls are made.\<close>

lemma processAudio_read_step:
  "processAudio_read reader (processAudio_begin st) = Inr st2 \<Longrightarrow>
     processingStep st2 = Transcribing"
  by (auto simp: processAudio_read_def processAudio_begin_def split: option.splits)

lemma processAudio_transcribed_step:
  "processAudio_transcribed r transcribe st = Inr st4 \<Longrightarrow> processingStep st4 = Generating"
  by (auto simp: processAudio_transcribed_def Let_def split: invoke_result.splits)

text \<open>
  Within one run of \<^verbatim>\<open>processAudio\<close> the transcription call, when made, comes first and
  the generation call, when made, follows it; no call is made twice.
\<close>

lemma processAudio_calls_in_order:
  "calls (processAudio r reader transcribe generate st) = calls st
   \<or> (\<exists>a. calls (processAudio r reader transcribe generate st) = calls st @ [TranscribeAudio a])
   \<or> (\<exists>a d m l. calls (processAudio r reader transcribe generate st) =
         calls st @ [TranscribeAudio a, GenerateSolution d m l])"
  by (cases reader; cases transcribe; cases generate) (simp_all add: process_defs Let_def)

text \<open>Every operation keeps the rows stamped.\<close>

lemma apply_update_stamped:
  "resolved_stamped r \<Longrightarrow>
     resolved_stamped (apply_update now (build_update_data newStatus client_now) r)"
  by (simp add: resolved_stamped_def apply_update_def build_update_data_def)

lemma update_rows_stamped:
  "list_all resolved_stamped rows \<Longrightarrow>
     list_all resolved_stamped (update_rows now (build_update_data newStatus client_now) k rows)"
  by (induction rows) (simp_all add: apply_update_stamped)

lemma updateStatus_stamped:
  "list_all resolved_stamped (interventions (fst s)) \<Longrightarrow>
     list_all resolved_stamped (interventions (fst (updateStatus newStatus client_now env s)))"
  by (auto simp: updateStatus_def update_rows_stamped split: option.splits sum.splits
        dest!: update_success_rows)

lemma updates_stamped:
  "list_all resolved_stamped (interventions (fst s)) \<Longrightarrow>
     list_all resolved_stamped (interventions (fst (updates cs s)))"
  by (induction cs arbitrary: s) (simp_all add: updateStatus_stamped)

lemma handleSave_stamped:
  "list_all resolved_stamped (interventions (fst s)) \<Longrightarrow>
     list_all resolved_stamped (interventions (fst (handleSave env s)))"
  by (auto simp: handleSave_def Let_def new_row_def resolved_stamped_def save_values_def
        split: sum.splits dest!: insert_success_rows)

text \<open>Once a row has a resolution time, no sequence of status updates removes it.\<close>

lemma updateStatus_keeps_resolved_at:
  assumes "find_intervention k (interventions (fst s)) = Some r" and "resolved_at r \<noteq> None"
  shows "\<exists>r'. find_intervention k (interventions (fst (updateStatus newStatus client_now env s)))
            = Some r' \<and> resolved_at r' \<noteq> None"
proof (cases "intervention (snd s)")
  case None
  with assms show ?thesis by (simp add: updateStatus_def)
next
  case (Some iv)
  show ?thesis
  proof (cases "update_intervention env (build_update_data newStatus client_now)
                  (intervention_id iv) (fst s)")
    case (Inl e)
    with Some assms show ?thesis by (simp add: updateStatus_def)
  next
    case (Inr db')
    then have db': "interventions db' =
        update_rows (db_now env) (build_update_data newStatus client_now) (intervention_id iv)
          (interventions (fst s))"
      by (auto dest: update_success_rows)
    show ?thesis
    proof (cases "intervention_id iv = k")
      case True
      with Some Inr db' assms show ?thesis
        by (auto simp: updateStatus_def find_update_rows_same apply_update_def
              build_update_data_def)
    next
      case False
      then have "k \<noteq> intervention_id iv" by simp
      with Some Inr db' assms show ?thesis
        by (simp add: updateStatus_def find_update_rows_other)
    qed
  qed
qed

lemma updates_keep_resolved_at:
  "find_intervention k (interventions (fst s)) = Some r \<Longrightarrow> resolved_at r \<noteq> None \<Longrightarrow>
     \<exists>r'. find_intervention k (interventions (fst (updates cs s))) = Some r'
          \<and> resolved_at r' \<noteq> None"
proof (induction cs arbitrary: s r)
  case Nil
  then show ?case by simp
next
  case (Cons c cs)
  from updateStatus_keeps_resolved_at [OF Cons.prems]
  obtain r1 where "find_intervention k
      (interventions (fst (updateStatus (fst c) (fst (snd c)) (snd (snd c)) s))) = Some r1"
    and "resolved_at r1 \<noteq> None"
    by blast
  then show ?case using Cons.IH by simp
qed

text \<open>
  What the disabled button does achieve. In every state whose step is transcribing or
  generating a click on the button changes nothing. In a submission in which the button
  is clicked only to start and to stop the recording, on a page where nothing was
  pending, the recording has ended before the transcription call is made, the step is
  transcribing while that call is in flight and generating while the generation call is,
  the two calls are made in this order, and nothing is left pending at the end.
\<close>

lemma mic_disabled_while_processing:
  "(processingStep (page_state pg) = Transcribing \<or> processingStep (page_state pg) = Generating
      \<longrightarrow> mic_disabled (page_state pg) \<and> deliver ClickMic pg = pg)
   \<and> (settled p \<and> \<not> isRecording (page_state p) \<and> \<not> mic_disabled (page_state p) \<longrightarrow>
        isRecording (page_state (run [ClickMic, MediaSettled DeviceGranted] p))
      \<and> \<not> in_flight (run [ClickMic, MediaSettled DeviceGranted] p)
      \<and> \<not> isRecording (page_state (run [ClickMic, MediaSettled DeviceGranted, ClickMic] p))
      \<and> \<not> in_flight (run [ClickMic, MediaSettled DeviceGranted, ClickMic] p)
      \<and> processingStep (page_state
           (run [ClickMic, MediaSettled DeviceGranted, ClickMic, StopEvent] p)) = Transcribing
      \<and> in_flight (run [ClickMic, MediaSettled DeviceGranted, ClickMic, StopEvent,
                         ReaderSettled (Some a)] p)
      \<and> processingStep (page_state
           (run [ClickMic, MediaSettled DeviceGranted, ClickMic, StopEvent,
                 ReaderSettled (Some a)] p)) = Transcribing
      \<and> \<not> isRecording (page_state
           (run [ClickMic, MediaSettled DeviceGranted, ClickMic, StopEvent,
                 ReaderSettled (Some a)] p))
      \<and> in_flight (run [ClickMic, MediaSettled DeviceGranted, ClickMic, StopEvent,
                         ReaderSettled (Some a), TranscriptionSettled (InvokeData t)] p)
      \<and> processingStep (page_state
           (run [ClickMic, MediaSettled DeviceGranted, ClickMic, StopEvent,
                 ReaderSettled (Some a), TranscriptionSettled (InvokeData t)] p)) = Generating
      \<and> \<not> isRecording (page_state
           (run [ClickMic, MediaSettled DeviceGranted, ClickMic, StopEvent,
                 ReaderSettled (Some a), TranscriptionSettled (InvokeData t)] p))
      \<and> settled (run (submission (Some a) (InvokeData t) g) p)
      \<and> \<not> isRecording (page_state (run (submission (Some a) (InvokeData t) g) p))
      \<and> (\<exists>m l. calls (page_state (run (submission (Some a) (InvokeData t) g) p)) =
            calls (page_state p) @ [TranscribeAudio a, GenerateSolution t m l]))"
proof -
  have click: "processingStep (page_state pg) = Transcribing
        \<or> processingStep (page_state pg) = Generating
      \<longrightarrow> mic_disabled (page_state pg) \<and> deliver ClickMic pg = pg"
    by (auto simp: mic_disabled_def)
  have clean: "settled p \<and> \<not> isRecording (page_state p) \<and> \<not> mic_disabled (page_state p) \<longrightarrow>
        isRecording (page_state (run [ClickMic, MediaSettled DeviceGranted] p))
      \<and> \<not> in_flight (run [ClickMic, MediaSettled DeviceGranted] p)
      \<and> \<not> isRecording (page_state (run [ClickMic, MediaSettled DeviceGranted, ClickMic] p))
      \<and> \<not> in_flight (run [ClickMic, MediaSettled DeviceGranted, ClickMic] p)
      \<and> processingStep (page_state
           (run [ClickMic, MediaSettled DeviceGranted, ClickMic, StopEvent] p)) = Transcribing
      \<and> in_flight (run [ClickMic, MediaSettled DeviceGranted, ClickMic, StopEvent,
                         ReaderSettled (Some a)] p)
      \<and> processingStep (page_state
           (run [ClickMic, MediaSettled DeviceGranted, ClickMic, StopEvent,
                 ReaderSettled (Some a)] p)) = Transcribing
      \<and> \<not> isRecording (page_state
           (run [ClickMic, MediaSettled DeviceGranted, ClickMic, StopEvent,
                 ReaderSettled (Some a)] p))
      \<and> in_flight (run [ClickMic, MediaSettled DeviceGranted, ClickMic, StopEvent,
                         ReaderSettled (Some a), TranscriptionSettled (InvokeData t)] p)
      \<and> processingStep (page_state
           (run [ClickMic, MediaSettled DeviceGranted, ClickMic, StopEvent,
                 ReaderSettled (Some a), TranscriptionSettled (InvokeData t)] p)) = Generating
      \<and> \<not> isRecording (page_state
           (run [ClickMic, MediaSettled DeviceGranted, ClickMic, StopEvent,
                 ReaderSettled (Some a), TranscriptionSettled (InvokeData t)] p))
      \<and> settled (run (submission (Some a) (InvokeData t) g) p)
      \<and> \<not> isRecording (page_state (run (submission (Some a) (InvokeData t) g) p))
      \<and> (\<exists>m l. calls (page_state (run (submission (Some a) (InvokeData t) g) p)) =
            calls (page_state p) @ [TranscribeAudio a, GenerateSolution t m l])"
    by (cases g)
       (simp_all add: settled_def in_flight_def submission_def recording_defs process_defs Let_def)
  from click clean show ?thesis by (rule conjI)
qed

section \<open>The claims\<close>

text \<open>
  C1. When a machine and a technician are selected, the description is not empty and the
  insert succeeds, \<^verbatim>\<open>handleSave\<close> adds exactly one row to the interventions table: status
  pending, priority medium, the description and the AI-solution text of the form, the
  selected machine and technician, and no resolution time. The insert is its one store
  call, and the page then navigates away.
\<close>

theorem handleSave_creates_one_pending:
  assumes "selectedMachine st \<noteq> []" and "selectedTechnician st \<noteq> []"
    and "problemDescription st \<noteq> []"
    and "insert_intervention env (save_values st) db = Inr db'"
  shows "interventions (fst (handleSave env (db, st))) =
           interventions db @
             [\<lparr> intervention_id = fresh_id env,
                technician_id = Some (selectedTechnician st),
                machine_id = Some (selectedMachine st),
                problem_description = Some (problemDescription st),
                audio_url = None,
                ai_solution = Some (aiSolution st),
                status = Some ''pending'',
                priority = Some ''medium'',
                created_at = db_now env,
                updated_at = db_now env,
                resolved_at = None \<rparr>]
         \<and> calls (snd (handleSave env (db, st))) = calls st @ [InsertIntervention (save_values st)]
         \<and> navigated (snd (handleSave env (db, st))) = Some ''/''"
proof -
  from assms(4)
  have "db' = db\<lparr>interventions := interventions db @ [new_row env (save_values st)]\<rparr>"
    by (rule insert_success_rows)
  with assms show ?thesis
    by (simp add: handleSave_def Let_def new_row_def save_values_def)
qed

theorem handleSave_creates_one_pending_witness:
  "selectedMachine demo_form \<noteq> [] \<and> selectedTechnician demo_form \<noteq> []
   \<and> problemDescription demo_form \<noteq> []
   \<and> interventions (fst (handleSave (demo_env ''t0'') (demo_store, demo_form))) =
       [\<lparr> intervention_id = ''I1'', technician_id = Some ''T1'', machine_id = Some ''M1'',
          problem_description = Some ''motor faz ruido'', audio_url = None,
          ai_solution = Some [], status = Some ''pending'', priority = Some ''medium'',
          created_at = ''t0'', updated_at = ''t0'', resolved_at = None \<rparr>]"
proof -
  have h: "insert_intervention (demo_env ''t0'') (save_values demo_form) demo_store =
      Inr (demo_store\<lparr>interventions := [new_row (demo_env ''t0'') (save_values demo_form)]\<rparr>)"
    by (simp add: demo_defs store_defs save_values_def)
  have m: "selectedMachine demo_form \<noteq> []" and t: "selectedTechnician demo_form \<noteq> []"
    and p: "problemDescription demo_form \<noteq> []"
    by (simp_all add: demo_defs)
  show ?thesis
    using m t p handleSave_creates_one_pending [OF m t p h]
    by (simp add: demo_defs)
qed

text \<open>
  C2. An \<^verbatim>\<open>updateStatus\<close> call on a loaded intervention that is in the store, when the store
  accepts the update, writes whatever target status was requested; the row's
  \<^verbatim>\<open>resolved_at\<close> becomes the current time exactly when the target is resolved, and for
  every other target it keeps the value it had (set or not).
\<close>

theorem updateStatus_store_effect:
  assumes "intervention st = Some iv"
    and "find_intervention (intervention_id iv) (interventions db) = Some r"
    and "update_intervention env (build_update_data newStatus client_now)
           (intervention_id iv) db = Inr db'"
  shows "find_intervention (intervention_id iv)
           (interventions (fst (updateStatus newStatus client_now env (db, st)))) =
         Some (r\<lparr> status := Some newStatus,
                  resolved_at :=
                    (if newStatus = ''resolved'' then Some client_now else resolved_at r),
                  updated_at := db_now env \<rparr>)"
proof -
  from assms(3)
  have "db' = db\<lparr>interventions :=
      update_rows (db_now env) (build_update_data newStatus client_now) (intervention_id iv)
        (interventions db)\<rparr>"
    by (rule update_success_rows)
  with assms show ?thesis
    by (simp add: updateStatus_def find_update_rows_same apply_update_def build_update_data_def)
qed

theorem updateStatus_store_effect_witness:
  "find_intervention ''I1''
     (interventions (fst (updateStatus ''cancelled'' ''t3'' (demo_env ''t4'')
        (demo_store\<lparr>interventions := [demo_row ''resolved'' (Some ''t1'')]\<rparr>,
         demo_detail (demo_row ''resolved'' (Some ''t1'')))))) =
     Some ((demo_row ''cancelled'' (Some ''t1''))\<lparr>updated_at := ''t4''\<rparr>)"
proof -
  have a: "intervention (demo_detail (demo_row ''resolved'' (Some ''t1''))) =
      Some (demo_row ''resolved'' (Some ''t1''))"
    by (simp add: demo_detail_def)
  have b: "find_intervention (intervention_id (demo_row ''resolved'' (Some ''t1'')))
      (interventions (demo_store\<lparr>interventions := [demo_row ''resolved'' (Some ''t1'')]\<rparr>)) =
      Some (demo_row ''resolved'' (Some ''t1''))"
    by simp
  have c: "update_intervention (demo_env ''t4'') (build_update_data ''cancelled'' ''t3'')
      (intervention_id (demo_row ''resolved'' (Some ''t1'')))
      (demo_store\<lparr>interventions := [demo_row ''resolved'' (Some ''t1'')]\<rparr>) =
      Inr (demo_store\<lparr>interventions :=
             [(demo_row ''cancelled'' (Some ''t1''))\<lparr>updated_at := ''t4''\<rparr>]\<rparr>)"
    by (simp add: demo_defs store_defs demo_row_def build_update_data_def)
  show ?thesis
    using updateStatus_store_effect [OF a b c]
    by (simp add: demo_defs demo_row_def build_update_data_def)
qed

text \<open>
  C3, as amended. Starting from a table in which every resolved row has a resolution time
  (the empty table is one), after \<^verbatim>\<open>handleSave\<close> and any sequence of \<^verbatim>\<open>updateStatus\<close> calls
  every row whose status is resolved has a non-null \<^verbatim>\<open>resolved_at\<close>. The converse is not
  claimed: nothing ever clears \<^verbatim>\<open>resolved_at\<close>.
\<close>

theorem resolved_has_resolved_at:
  assumes "list_all resolved_stamped (interventions (fst s))"
  shows "list_all resolved_stamped (interventions (fst (lifecycle env s fetch_fault pg cs)))"
  using assms by (simp add: lifecycle_def Let_def updates_stamped handleSave_stamped)

theorem resolved_has_resolved_at_witness:
  "list_all resolved_stamped (interventions demo_store)
   \<and> list_all resolved_stamped
       (interventions (fst (lifecycle (demo_env ''t0'') (demo_store, demo_form) False demo_page
          [(''in_progress'', ''t1'', demo_env ''t1''), (''resolved'', ''t2'', demo_env ''t2'')])))"
proof -
  have h: "list_all resolved_stamped (interventions (fst (demo_store, demo_form)))"
    by (simp add: demo_store_def)
  show ?thesis
    using h resolved_has_resolved_at [OF h] by simp
qed

text \<open>
  C3 as stated fails: an intervention is created, set to resolved at \<open>t1\<close> and then set
  to pending through the status selector; its row has status pending and still carries
  the resolution time \<open>t1\<close>.
\<close>

theorem resolved_at_survives_counterexample:
  "map status (interventions (fst (lifecycle (demo_env ''t0'') (demo_store, demo_form) False
      demo_page [(''resolved'', ''t1'', demo_env ''t1''), (''pending'', ''t2'', demo_env ''t2'')])))
     = [Some ''pending'']
   \<and> map resolved_at (interventions (fst (lifecycle (demo_env ''t0'') (demo_store, demo_form) False
      demo_page [(''resolved'', ''t1'', demo_env ''t1''), (''pending'', ''t2'', demo_env ''t2'')])))
     = [Some ''t1'']"
  by (simp add: lifecycle_def handleSave_def Let_def demo_defs store_defs fetchData_def
      updateStatus_def build_update_data_def save_values_def)

text \<open>
  C4, as amended. For an intervention whose status is resolved or cancelled none of the
  quick-action buttons is offered; the controls that remain (when no update is running)
  are the four entries of the status selector, each of which calls \<^verbatim>\<open>updateStatus\<close>
  with its status.
\<close>

theorem terminal_quick_actions:
  assumes "intervention st = Some iv"
    and "status iv = Some ''resolved'' \<or> status iv = Some ''cancelled''"
  shows "quick_actions (status iv) = []
       \<and> offered_targets st = (if updating st then [] else select_items)"
  using assms by (auto simp: quick_actions_def offered_targets_def)

theorem terminal_quick_actions_witness:
  "intervention (demo_detail (demo_row ''resolved'' (Some ''t1''))) =
     Some (demo_row ''resolved'' (Some ''t1''))
   \<and> status (demo_row ''resolved'' (Some ''t1'')) = Some ''resolved''
   \<and> quick_actions (status (demo_row ''resolved'' (Some ''t1''))) = []
   \<and> offered_targets (demo_detail (demo_row ''resolved'' (Some ''t1''))) = select_items"
proof -
  have a: "intervention (demo_detail (demo_row ''resolved'' (Some ''t1''))) =
      Some (demo_row ''resolved'' (Some ''t1''))"
    by (simp add: demo_detail_def)
  have h: "status (demo_row ''resolved'' (Some ''t1'')) = Some ''resolved''
        \<or> status (demo_row ''resolved'' (Some ''t1'')) = Some ''cancelled''"
    by (simp add: demo_row_def)
  show ?thesis
    using a terminal_quick_actions [OF a h] by (simp add: demo_row_def demo_detail_def)
qed

text \<open>
  C4 as stated fails: an intervention is created, started and resolved; the loaded copy
  is resolved and the page still offers pending; the call \<^verbatim>\<open>updateStatus('pending')\<close> then
  changes the status of the row and of the loaded copy to pending.
\<close>

theorem terminal_status_counterexample:
  "map_option status (intervention (snd (lifecycle (demo_env ''t0'') (demo_store, demo_form) False
      demo_page [(''in_progress'', ''t1'', demo_env ''t1''), (''resolved'', ''t2'', demo_env ''t2'')])))
     = Some (Some ''resolved'')
   \<and> offered_targets (snd (lifecycle (demo_env ''t0'') (demo_store, demo_form) False demo_page
      [(''in_progress'', ''t1'', demo_env ''t1''), (''resolved'', ''t2'', demo_env ''t2'')]))
     = [''pending'', ''in_progress'', ''resolved'', ''cancelled'']
   \<and> map status (interventions (fst (lifecycle (demo_env ''t0'') (demo_store, demo_form) False
      demo_page [(''in_progress'', ''t1'', demo_env ''t1''), (''resolved'', ''t2'', demo_env ''t2''),
                 (''pending'', ''t3'', demo_env ''t3'')])))
     = [Some ''pending'']
   \<and> map_option status (intervention (snd (lifecycle (demo_env ''t0'') (demo_store, demo_form) False
      demo_page [(''in_progress'', ''t1'', demo_env ''t1''), (''resolved'', ''t2'', demo_env ''t2''),
                 (''pending'', ''t3'', demo_env ''t3'')])))
     = Some (Some ''pending'')"
  by (simp add: lifecycle_def handleSave_def Let_def demo_defs store_defs fetchData_def
      updateStatus_def build_update_data_def save_values_def offered_targets_def
      quick_actions_def select_items_def)

text \<open>
  C5. When the machine, the technician or the description is empty, \<^verbatim>\<open>handleSave\<close> shows
  the required-fields toast and does nothing else: the store is untouched and no call is
  added to the log.
\<close>

theorem handleSave_validation:
  assumes "selectedMachine st = [] \<or> selectedTechnician st = [] \<or> problemDescription st = []"
  shows "handleSave env (db, st) = (db, st\<lparr>toasts := toasts st @ [toast_required_fields]\<rparr>)
       \<and> calls (snd (handleSave env (db, st))) = calls st"
  using assms by (auto simp: handleSave_def Let_def)

theorem handleSave_validation_witness:
  "selectedTechnician (demo_form\<lparr>selectedTechnician := []\<rparr>) = []
   \<and> fst (handleSave (demo_env ''t0'') (demo_store, demo_form\<lparr>selectedTechnician := []\<rparr>))
       = demo_store
   \<and> calls (snd (handleSave (demo_env ''t0'') (demo_store, demo_form\<lparr>selectedTechnician := []\<rparr>)))
       = []
   \<and> toasts (snd (handleSave (demo_env ''t0'') (demo_store, demo_form\<lparr>selectedTechnician := []\<rparr>)))
       = [toast_required_fields]"
proof -
  have h: "selectedMachine (demo_form\<lparr>selectedTechnician := []\<rparr>) = []
    \<or> selectedTechnician (demo_form\<lparr>selectedTechnician := []\<rparr>) = []
    \<or> problemDescription (demo_form\<lparr>selectedTechnician := []\<rparr>) = []"
    by simp
  show ?thesis
    using handleSave_validation [OF h, of "demo_env ''t0''" demo_store]
    by (simp add: demo_defs)
qed

text \<open>
  C6, as amended. Every failure inside \<^verbatim>\<open>processAudio\<close> (reading the blob, the
  transcription call, the generation call) returns the step to idle; a failure in
  \<^verbatim>\<open>startRecording\<close> (the device, or the start of the recorder) leaves the step as it
  was. A failure in \<^verbatim>\<open>startRecording\<close>, of the reader or of the transcription call leaves
  the description and the AI solution at their values before the failure. A failure of
  the generation call leaves the description at the transcribed text and the AI solution
  at its value before the call (empty on a first submission, the earlier solution after
  an earlier completed submission). The same holds stretch by stretch, whatever the page
  did in between: each failing stretch is the \<^verbatim>\<open>catch\<close> block applied to the state it
  found.
\<close>

theorem pipeline_failure_state:
  "processingStep (processAudio r None transcribe generate st) = Idle
   \<and> problemDescription (processAudio r None transcribe generate st) = problemDescription st
   \<and> aiSolution (processAudio r None transcribe generate st) = aiSolution st
   \<and> processingStep (processAudio r (Some a) (InvokeError e) generate st) = Idle
   \<and> problemDescription (processAudio r (Some a) (InvokeError e) generate st) = problemDescription st
   \<and> aiSolution (processAudio r (Some a) (InvokeError e) generate st) = aiSolution st
   \<and> processingStep (processAudio r (Some a) (InvokeData transcribedText) (InvokeError e) st) = Idle
   \<and> problemDescription (processAudio r (Some a) (InvokeData transcribedText) (InvokeError e) st)
       = transcribedText
   \<and> aiSolution (processAudio r (Some a) (InvokeData transcribedText) (InvokeError e) st)
       = aiSolution st
   \<and> processAudio_read None st = Inl (processAudio_catch st)
   \<and> processAudio_transcribed r (InvokeError e) st = Inl (processAudio_catch st)
   \<and> processAudio_generated (InvokeError e) st = processAudio_catch st
   \<and> processingStep (processAudio_catch st) = Idle
   \<and> problemDescription (processAudio_catch st) = problemDescription st
   \<and> aiSolution (processAudio_catch st) = aiSolution st
   \<and> processingStep (startRecording_resume r DeviceFailed st) = processingStep st
   \<and> problemDescription (startRecording_resume r DeviceFailed st) = problemDescription st
   \<and> aiSolution (startRecording_resume r DeviceFailed st) = aiSolution st
   \<and> processingStep (startRecording_resume r StartFailed st) = processingStep st
   \<and> problemDescription (startRecording_resume r StartFailed st) = problemDescription st
   \<and> aiSolution (startRecording_resume r StartFailed st) = aiSolution st"
  by (simp add: process_defs startRecording_resume_def Let_def)

theorem pipeline_failure_state_witness:
  "processingStep (processAudio demo_recorder (Some ''QQ=='') (InvokeData ''correia partida'')
      (InvokeError ''boom'') demo_form) = Idle
   \<and> problemDescription (processAudio demo_recorder (Some ''QQ=='') (InvokeData ''correia partida'')
      (InvokeError ''boom'') demo_form) = ''correia partida''
   \<and> aiSolution (processAudio demo_recorder (Some ''QQ=='') (InvokeData ''correia partida'')
      (InvokeError ''boom'') demo_form) = []
   \<and> problemDescription (processAudio demo_recorder (Some ''QQ=='') (InvokeError ''boom'')
      (InvokeData []) demo_form) = ''motor faz ruido''
   \<and> processingStep (startRecording_resume demo_recorder DeviceFailed demo_form) = Idle"
  using pipeline_failure_state [where r = demo_recorder and st = demo_form
      and a = "''QQ==''" and e = "''boom''" and generate = "InvokeData []"
      and transcribedText = "''correia partida''"]
  by (simp add: demo_defs)

text \<open>
  C6 as stated fails twice after a first submission that completed with a solution.
  A second submission is transcribed and its generation call fails: the step is idle, the
  description is the new transcription, and the AI solution is not unset but the first
  submission's. And a click on the microphone whose device request fails leaves the step
  at complete, not idle, with the microphone toast shown.
\<close>

theorem pipeline_failure_state_counterexample:
  "processingStep (page_state (run
      (submission (Some ''QQ=='') (InvokeData ''motor faz ruido'') (InvokeData ''1. Diagnostico''))
      (initial_page demo_machines))) = Complete
   \<and> processingStep (page_state (run
      (submission (Some ''QQ=='') (InvokeData ''motor faz ruido'') (InvokeData ''1. Diagnostico'')
       @ submission (Some ''Qg=='') (InvokeData ''correia partida'') (InvokeError ''boom''))
      (initial_page demo_machines))) = Idle
   \<and> problemDescription (page_state (run
      (submission (Some ''QQ=='') (InvokeData ''motor faz ruido'') (InvokeData ''1. Diagnostico'')
       @ submission (Some ''Qg=='') (InvokeData ''correia partida'') (InvokeError ''boom''))
      (initial_page demo_machines))) = ''correia partida''
   \<and> aiSolution (page_state (run
      (submission (Some ''QQ=='') (InvokeData ''motor faz ruido'') (InvokeData ''1. Diagnostico'')
       @ submission (Some ''Qg=='') (InvokeData ''correia partida'') (InvokeError ''boom''))
      (initial_page demo_machines))) = ''1. Diagnostico''
   \<and> processingStep (page_state (run
      (submission (Some ''QQ=='') (InvokeData ''motor faz ruido'') (InvokeData ''1. Diagnostico'')
       @ [ClickMic, MediaSettled DeviceFailed])
      (initial_page demo_machines))) = Complete
   \<and> toasts (page_state (run
      (submission (Some ''QQ=='') (InvokeData ''motor faz ruido'') (InvokeData ''1. Diagnostico'')
       @ [ClickMic, MediaSettled DeviceFailed])
      (initial_page demo_machines))) = [toast_processing_done, toast_microphone]"
  by (simp add: page_defs process_defs recording_defs Let_def)

text \<open>
  C7, as amended. A failure in \<^verbatim>\<open>startRecording\<close> shows the microphone toast. Every
  failure inside \<^verbatim>\<open>processAudio\<close> (reading the blob, the transcription call, the
  generation call with whatever error, a rate limit included) shows one and the same
  processing-error toast, which differs from the microphone toast.
\<close>

theorem failure_toasts:
  "toasts (startRecording DeviceFailed st) = toasts st @ [toast_microphone]
   \<and> toasts (processAudio r None transcribe generate st) = toasts st @ [toast_processing_error]
   \<and> toasts (processAudio r (Some a) (InvokeError e) generate st)
       = toasts st @ [toast_processing_error]
   \<and> toasts (processAudio r (Some a) (InvokeData transcribedText) (InvokeError e') st)
       = toasts st @ [toast_processing_error]
   \<and> toast_microphone \<noteq> toast_processing_error
   \<and> toasts (startRecording StartFailed st) = toasts st @ [toast_microphone]
   \<and> toasts (startRecording_resume r' DeviceFailed st) = toasts st @ [toast_microphone]
   \<and> toasts (startRecording_resume r' StartFailed st) = toasts st @ [toast_microphone]"
  by (simp add: process_defs Let_def recording_defs toast_microphone_def
      toast_processing_error_def)

theorem failure_toasts_witness:
  "toasts (startRecording DeviceFailed demo_form) = [toast_microphone]
   \<and> toasts (processAudio demo_recorder (Some ''QQ=='') (InvokeError ''HTTP 500'') (InvokeData [])
        demo_form) = [toast_processing_error]"
  using failure_toasts [where st = demo_form and r = demo_recorder and a = "''QQ==''"
      and e = "''HTTP 500''" and generate = "InvokeData []"]
  by (simp add: demo_defs)

text \<open>
  C7 as stated fails: a failed transcription call, a generation call that fails with the
  service's rate-limit error and a generation call that fails with its generic error
  leave the same list of toasts.
\<close>

theorem same_toast_counterexample:
  "toasts (processAudio demo_recorder (Some ''QQ=='') (InvokeError ''HTTP 500'') (InvokeData [])
      demo_form)
   = toasts (processAudio demo_recorder (Some ''QQ=='') (InvokeData ''correia partida'')
      (InvokeError ''Rate limit exceeded. Please try again later.'') demo_form)
   \<and> toasts (processAudio demo_recorder (Some ''QQ=='') (InvokeData ''correia partida'')
      (InvokeError ''Rate limit exceeded. Please try again later.'') demo_form)
   = toasts (processAudio demo_recorder (Some ''QQ=='') (InvokeData ''correia partida'')
      (InvokeError ''AI Gateway error: down'') demo_form)"
  by (simp add: process_defs Let_def)




text \<open>
  C9. The claim is that no recording starts while a transcription or a generation call
  is in flight. The page does not keep to it. In the first run below the button is
  clicked a third time after the stop click and before the recorder's \<^verbatim>\<open>stop\<close> event;
  the step is still recording and \<^verbatim>\<open>isRecording\<close> is false, so the click is accepted
  and \<^verbatim>\<open>startRecording\<close> waits for the device. In the second run the button is clicked
  twice at the start, and the second device request is granted late. In both runs the
  transcription call is then in flight with the step transcribing and no recording
  running, the pending device request is granted, and the page is recording with the
  step back at recording and the button enabled, while the transcription call is still
  in flight.
\<close>

theorem recording_starts_in_flight:
  "in_flight (run [ClickMic, MediaSettled DeviceGranted, ClickMic, ClickMic, StopEvent,
      ReaderSettled (Some ''QQ=='')] (initial_page demo_machines))
   \<and> processingStep (page_state (run [ClickMic, MediaSettled DeviceGranted, ClickMic, ClickMic,
      StopEvent, ReaderSettled (Some ''QQ=='')] (initial_page demo_machines))) = Transcribing
   \<and> isRecording (page_state (run [ClickMic, MediaSettled DeviceGranted, ClickMic, ClickMic,
      StopEvent, ReaderSettled (Some ''QQ=='')] (initial_page demo_machines))) = False
   \<and> in_flight (run [ClickMic, MediaSettled DeviceGranted, ClickMic, ClickMic, StopEvent,
      ReaderSettled (Some ''QQ==''), MediaSettled DeviceGranted] (initial_page demo_machines))
   \<and> isRecording (page_state (run [ClickMic, MediaSettled DeviceGranted, ClickMic, ClickMic,
      StopEvent, ReaderSettled (Some ''QQ==''), MediaSettled DeviceGranted]
      (initial_page demo_machines)))
   \<and> processingStep (page_state (run [ClickMic, MediaSettled DeviceGranted, ClickMic, ClickMic,
      StopEvent, ReaderSettled (Some ''QQ==''), MediaSettled DeviceGranted]
      (initial_page demo_machines))) = Recording
   \<and> mic_disabled (page_state (run [ClickMic, MediaSettled DeviceGranted, ClickMic, ClickMic,
      StopEvent, ReaderSettled (Some ''QQ==''), MediaSettled DeviceGranted]
      (initial_page demo_machines))) = False
   \<and> in_flight (run [ClickMic, ClickMic, MediaSettled DeviceGranted, ClickMic, StopEvent,
      ReaderSettled (Some ''QQ=='')] (initial_page demo_machines))
   \<and> isRecording (page_state (run [ClickMic, ClickMic, MediaSettled DeviceGranted, ClickMic,
      StopEvent, ReaderSettled (Some ''QQ=='')] (initial_page demo_machines))) = False
   \<and> in_flight (run [ClickMic, ClickMic, MediaSettled DeviceGranted, ClickMic, StopEvent,
      ReaderSettled (Some ''QQ==''), MediaSettled DeviceGranted] (initial_page demo_machines))
   \<and> isRecording (page_state (run [ClickMic, ClickMic, MediaSettled DeviceGranted, ClickMic,
      StopEvent, ReaderSettled (Some ''QQ==''), MediaSettled DeviceGranted]
      (initial_page demo_machines)))
   \<and> processingStep (page_state (run [ClickMic, ClickMic, MediaSettled DeviceGranted, ClickMic,
      StopEvent, ReaderSettled (Some ''QQ==''), MediaSettled DeviceGranted]
      (initial_page demo_machines))) = Recording"
  by (simp add: page_defs process_defs recording_defs Let_def)

text \<open>
  C10. After an accepted \<^verbatim>\<open>updateStatus('resolved')\<close> on a loaded intervention that is in
  the store, the loaded copy is the old copy with only its status replaced: its
  \<^verbatim>\<open>resolved_at\<close> is the value it had in memory, while the row in the store has
  \<^verbatim>\<open>resolved_at\<close> set to the time of the call; a fresh \<^verbatim>\<open>fetchData\<close> then loads that time.
\<close>

theorem updateStatus_local_copy:
  assumes "intervention st = Some iv"
    and "find_intervention (intervention_id iv) (interventions db) = Some r"
    and "update_intervention env (build_update_data ''resolved'' client_now)
           (intervention_id iv) db = Inr db'"
  shows "intervention (snd (updateStatus ''resolved'' client_now env (db, st))) =
           Some (iv\<lparr>status := Some ''resolved''\<rparr>)
       \<and> map_option resolved_at
           (intervention (snd (updateStatus ''resolved'' client_now env (db, st)))) =
           Some (resolved_at iv)
       \<and> map_option resolved_at (find_intervention (intervention_id iv)
           (interventions (fst (updateStatus ''resolved'' client_now env (db, st))))) =
           Some (Some client_now)
       \<and> map_option resolved_at (intervention (detail
           (fetchData (intervention_id iv) False
              (fst (updateStatus ''resolved'' client_now env (db, st))) pg))) =
           Some (Some client_now)"
proof -
  from assms(3)
  have "db' = db\<lparr>interventions :=
      update_rows (db_now env) (build_update_data ''resolved'' client_now) (intervention_id iv)
        (interventions db)\<rparr>"
    by (rule update_success_rows)
  with assms show ?thesis
    by (simp add: updateStatus_def fetchData_def find_update_rows_same apply_update_def
        build_update_data_def)
qed

theorem updateStatus_local_copy_witness:
  "intervention (snd (updateStatus ''resolved'' ''t1'' (demo_env ''t2'')
        (demo_store\<lparr>interventions := [demo_row ''in_progress'' None]\<rparr>,
         demo_detail (demo_row ''in_progress'' None)))) = Some (demo_row ''resolved'' None)
   \<and> find_intervention ''I1'' (interventions (fst (updateStatus ''resolved'' ''t1'' (demo_env ''t2'')
        (demo_store\<lparr>interventions := [demo_row ''in_progress'' None]\<rparr>,
         demo_detail (demo_row ''in_progress'' None)))))
       = Some ((demo_row ''resolved'' (Some ''t1''))\<lparr>updated_at := ''t2''\<rparr>)"
proof -
  have a: "intervention (demo_detail (demo_row ''in_progress'' None)) =
      Some (demo_row ''in_progress'' None)"
    by (simp add: demo_detail_def)
  have b: "find_intervention (intervention_id (demo_row ''in_progress'' None))
      (interventions (demo_store\<lparr>interventions := [demo_row ''in_progress'' None]\<rparr>)) =
      Some (demo_row ''in_progress'' None)"
    by simp
  have c: "update_intervention (demo_env ''t2'') (build_update_data ''resolved'' ''t1'')
      (intervention_id (demo_row ''in_progress'' None))
      (demo_store\<lparr>interventions := [demo_row ''in_progress'' None]\<rparr>) =
      Inr (demo_store\<lparr>interventions :=
             [(demo_row ''resolved'' (Some ''t1''))\<lparr>updated_at := ''t2''\<rparr>]\<rparr>)"
    by (simp add: demo_defs store_defs demo_row_def build_update_data_def)
  show ?thesis
    using updateStatus_local_copy [OF a b c]
    by (simp add: demo_defs store_defs demo_row_def demo_detail_def build_update_data_def
        updateStatus_def)
qed

end
